theory Spec2Isabelle
  imports Main "HOL-Library.Word" "HOL-Library.Monad_Syntax"
begin

unbundle bit_operations_syntax

section \<open>AXI VDMA frame buffer driver (drivers/video/fbdev/vdmafb.c)\<close>

text \<open>
  A shallow embedding of the driver. The driver is written for a 32-bit target (the
  device tree of its header comment has 32-bit addresses, and the physical address is
  printed with \<^verbatim>\<open>%x\<close>), so \<^verbatim>\<open>u32\<close>, \<^verbatim>\<open>u_int\<close>, \<^verbatim>\<open>int\<close>, \<^verbatim>\<open>size_t\<close>,
  \<^verbatim>\<open>phys_addr_t\<close> and \<^verbatim>\<open>dma_addr_t\<close> are all 32-bit words: arithmetic wraps, and a
  conversion between them keeps the bit pattern. Return codes are small integers and
  are kept as \<open>int\<close>.
\<close>

type_synonym u8 = "8 word"
type_synonym u32 = "32 word"

definition ENOMEM :: int where "ENOMEM = 12"
definition EINVAL :: int where "EINVAL = 22"

subsection \<open>Data model\<close>

text \<open>\<^verbatim>\<open>struct fb_bitfield\<close>: position and width of one colour field in a pixel.\<close>

record fb_bitfield =
  offset :: u32
  length_bits :: u32

text \<open>\<^verbatim>\<open>struct fb_var_screeninfo\<close>, the fields the driver sets.\<close>

record fb_var_screeninfo =
  xres :: u32
  yres :: u32
  xres_virtual :: u32
  yres_virtual :: u32
  bits_per_pixel :: u32
  red :: fb_bitfield
  green :: fb_bitfield
  blue :: fb_bitfield
  transp :: fb_bitfield
  activate :: u32
  accel_flags :: u32
  pixclock :: u32
  vmode :: u32

text \<open>\<^verbatim>\<open>struct fb_fix_screeninfo\<close>, the fields the driver sets.\<close>

record fb_fix_screeninfo =
  id_str :: string
  smem_start :: u32
  smem_len :: u32
  type_fb :: u32
  visual :: u32
  line_length :: u32

text \<open>
  A pointer to the palette: \<^verbatim>\<open>info->pseudo_palette\<close> is either still NULL (the device
  structure comes zeroed from \<^verbatim>\<open>devm_kzalloc\<close>) or points at the array
  \<^verbatim>\<open>fbdev->pseudo_palette\<close>.
\<close>

datatype palette_ptr = NULL_palette | Fbdev_palette

text \<open>
  \<^verbatim>\<open>struct fb_info\<close>: \<open>screen_base\<close> is \<open>None\<close> for a NULL pointer; \<open>cmap_allocated\<close>
  records whether \<^verbatim>\<open>fb_alloc_cmap\<close> has filled \<^verbatim>\<open>info.cmap\<close>.
\<close>

record fb_info =
  var :: fb_var_screeninfo
  fix_info :: fb_fix_screeninfo
  screen_base :: "u32 option"
  info_pseudo_palette :: palette_ptr
  cmap_allocated :: bool

datatype dma_transfer_direction =
  DMA_MEM_TO_MEM | DMA_MEM_TO_DEV | DMA_DEV_TO_MEM | DMA_DEV_TO_DEV | DMA_TRANS_NONE

text \<open>\<^verbatim>\<open>struct data_chunk\<close>.\<close>

record data_chunk =
  size_bytes :: u32
  icg :: u32

text \<open>
  \<^verbatim>\<open>struct dma_interleaved_template\<close> together with the one \<^verbatim>\<open>data_chunk\<close> that
  \<^verbatim>\<open>vdmafb_probe\<close> allocates behind it: \<open>sgl0\<close> is \<^verbatim>\<open>sgl[0]\<close>.
\<close>

record dma_interleaved_template =
  src_start :: u32
  dst_start :: u32
  dir :: dma_transfer_direction
  src_inc :: bool
  dst_inc :: bool
  src_sgl :: bool
  dst_sgl :: bool
  numf :: u32
  frame_size :: u32
  sgl0 :: data_chunk

text \<open>
  The result of \<^verbatim>\<open>dma_request_slave_channel\<close> as the driver tests it: NULL, an
  encoded error (\<^verbatim>\<open>ERR_PTR\<close> of a negative errno), or a channel.
\<close>

datatype dma_chan_ptr = NULL_chan | ERR_chan int | Chan nat

text \<open>\<^verbatim>\<open>struct vdmafb_dev\<close>. \<open>fb_virt\<close> is \<open>None\<close> for a NULL pointer.\<close>

record vdmafb_dev =
  info :: fb_info
  fb_phys :: u32
  fb_virt :: "u32 option"
  dma :: dma_chan_ptr
  dma_template :: dma_interleaved_template
  pseudo_palette :: "u32 list"

subsection \<open>Colour registers\<close>

text \<open>
  The shift operators of C on 32-bit operands. A shift count of 32 or more is undefined
  behaviour, which is the value \<open>None\<close>.
\<close>

definition shr32 :: "u32 \<Rightarrow> u32 \<Rightarrow> u32 option" where
  "shr32 x n = (if n < 32 then Some (drop_bit (unat n) x) else None)"

definition shl32 :: "u32 \<Rightarrow> u32 \<Rightarrow> u32 option" where
  "shl32 x n = (if n < 32 then Some (push_bit (unat n) x) else None)"

text \<open>
  \<^verbatim>\<open>vdmafb_setcolreg\<close>, on the device structure whose \<open>info\<close> member the caller
  passes. The result is the return value and the device afterwards; \<open>None\<close> is
  undefined behaviour (a shift count out of range, a write through a NULL palette
  pointer). The three right shifts are initialisers and so come before the test of
  \<open>regno\<close>, as in the source. The mask \<^verbatim>\<open>(1 << length) - 1\<close> is computed in
  \<^verbatim>\<open>int\<close> and stored in a \<^verbatim>\<open>u32\<close>; the kernel is built with wrapping signed
  arithmetic, so its bit pattern is the one of the 32-bit word computation.
\<close>

definition vdmafb_setcolreg ::
  "u32 \<Rightarrow> u32 \<Rightarrow> u32 \<Rightarrow> u32 \<Rightarrow> u32 \<Rightarrow> vdmafb_dev \<Rightarrow> (int \<times> vdmafb_dev) option" where
  "vdmafb_setcolreg regno red_v green_v blue_v transp_v fbdev =
     (let v = var (info fbdev); pal = info_pseudo_palette (info fbdev) in
      do {
        cr \<leftarrow> shr32 red_v (16 - length_bits (red v));
        cg \<leftarrow> shr32 green_v (16 - length_bits (green v));
        cb \<leftarrow> shr32 blue_v (16 - length_bits (blue v));
        if regno \<ge> 16 then Some (- EINVAL, fbdev)
        else do {
          r \<leftarrow> shl32 cr (offset (red v));
          g \<leftarrow> shl32 cg (offset (green v));
          b \<leftarrow> shl32 cb (offset (blue v));
          value0 \<leftarrow> Some (r OR g OR b);
          value1 \<leftarrow>
            (if length_bits (transp v) > 0 then do {
               m \<leftarrow> shl32 1 (length_bits (transp v));
               mask \<leftarrow> shl32 (m - 1) (offset (transp v));
               Some (value0 OR mask)
             } else Some value0);
          (case pal of
             NULL_palette \<Rightarrow> None
           | Fbdev_palette \<Rightarrow>
               Some (0, fbdev\<lparr>pseudo_palette := (pseudo_palette fbdev)[unat regno := value1]\<rparr>))
        }
      })"

subsection \<open>Geometry\<close>

text \<open>
  Constants of \<^verbatim>\<open>linux/fb.h\<close>: \<^verbatim>\<open>FB_ACCEL_NONE\<close>, \<^verbatim>\<open>FB_ACTIVATE_NOW\<close>,
  \<^verbatim>\<open>FB_VMODE_NONINTERLACED\<close> and \<^verbatim>\<open>FB_TYPE_PACKED_PIXELS\<close> are 0,
  \<^verbatim>\<open>FB_VISUAL_TRUECOLOR\<close> is 2, and \<^verbatim>\<open>KHZ2PICOS(a)\<close> is \<^verbatim>\<open>1000000000UL/(a)\<close>.
\<close>

definition FB_ACCEL_NONE :: u32 where "FB_ACCEL_NONE = 0"
definition FB_ACTIVATE_NOW :: u32 where "FB_ACTIVATE_NOW = 0"
definition FB_VMODE_NONINTERLACED :: u32 where "FB_VMODE_NONINTERLACED = 0"
definition FB_TYPE_PACKED_PIXELS :: u32 where "FB_TYPE_PACKED_PIXELS = 0"
definition FB_VISUAL_TRUECOLOR :: u32 where "FB_VISUAL_TRUECOLOR = 2"

definition KHZ2PICOS :: "u32 \<Rightarrow> u32" where
  "KHZ2PICOS a = 1000000000 div a"

text \<open>\<^verbatim>\<open>vdmafb_init_var\<close>: the fixed 800 x 480 geometry at 32 bits per pixel.\<close>

definition vdmafb_init_var :: "vdmafb_dev \<Rightarrow> vdmafb_dev" where
  "vdmafb_init_var fbdev =
     (let v0 = var (info fbdev);
          v1 = v0\<lparr>xres := 800, yres := 480\<rparr>;
          v2 = v1\<lparr>accel_flags := FB_ACCEL_NONE, activate := FB_ACTIVATE_NOW\<rparr>;
          v3 = v2\<lparr>xres_virtual := xres v2, yres_virtual := yres v2\<rparr>;
          v4 = v3\<lparr>bits_per_pixel := 32, pixclock := KHZ2PICOS 33260,
                   vmode := FB_VMODE_NONINTERLACED\<rparr>;
          v5 = v4\<lparr>transp := \<lparr>offset = 24, length_bits = 8\<rparr>,
                   red := \<lparr>offset = 16, length_bits = 8\<rparr>,
                   green := \<lparr>offset = 8, length_bits = 8\<rparr>,
                   blue := \<lparr>offset = 0, length_bits = 8\<rparr>\<rparr>
      in fbdev\<lparr>info := (info fbdev)\<lparr>var := v5\<rparr>\<rparr>)"

text \<open>\<^verbatim>\<open>vdmafb_init_fix\<close>: stride and buffer size from the geometry.\<close>

definition vdmafb_init_fix :: "vdmafb_dev \<Rightarrow> vdmafb_dev" where
  "vdmafb_init_fix fbdev =
     (let v = var (info fbdev);
          f0 = fix_info (info fbdev);
          f1 = f0\<lparr>id_str := ''vdma-fb''\<rparr>;
          f2 = f1\<lparr>line_length := xres v * (bits_per_pixel v div 8)\<rparr>;
          f3 = f2\<lparr>smem_len := line_length f2 * yres v\<rparr>;
          f4 = f3\<lparr>type_fb := FB_TYPE_PACKED_PIXELS, visual := FB_VISUAL_TRUECOLOR\<rparr>
      in fbdev\<lparr>info := (info fbdev)\<lparr>fix_info := f4\<rparr>\<rparr>)"

subsection \<open>The platform and the calls the driver makes\<close>

text \<open>
  \<^verbatim>\<open>struct xilinx_vdma_config\<close> is declared in \<^verbatim>\<open>linux/dma/xilinx_dma.h\<close>. The driver
  names one member, \<open>park\<close>, and zeroes the whole structure with \<^verbatim>\<open>memset\<close> before
  setting it; \<open>others_zero\<close> says that every other member is zero.
\<close>

record xilinx_vdma_config =
  park :: int
  others_zero :: bool

text \<open>A prepared transfer descriptor: an opaque handle of the DMA engine.\<close>

datatype dma_async_tx_descriptor = Desc nat

text \<open>
  Every call the driver makes outside itself, with its arguments and, where the driver
  reads it, its result: \<^verbatim>\<open>dma_alloc_coherent\<close> with the size and the addresses
  (virtual, physical) it returns, \<open>None\<close> for NULL; \<^verbatim>\<open>memset_io\<close> with address,
  byte and count; the channel lookup with the name and the pointer returned;
  \<^verbatim>\<open>dmaengine_prep_interleaved_dma\<close> with the channel, the contents of the template
  and the descriptor returned, \<open>None\<close> for NULL; \<^verbatim>\<open>fb_alloc_cmap\<close> and
  \<^verbatim>\<open>register_framebuffer\<close> with their return values; \<^verbatim>\<open>dma_free_coherent\<close> with
  size, virtual and physical address. The logging calls are left out.
\<close>

datatype event =
    Dma_alloc_coherent u32 "(u32 \<times> u32) option"
  | Memset_io u32 u8 u32
  | Dma_request_slave_channel string dma_chan_ptr
  | Dmaengine_terminate_all dma_chan_ptr
  | Xilinx_vdma_channel_set_config dma_chan_ptr xilinx_vdma_config
  | Dmaengine_prep_interleaved_dma dma_chan_ptr dma_interleaved_template
      "dma_async_tx_descriptor option"
  | Dmaengine_submit dma_async_tx_descriptor
  | Dma_async_issue_pending dma_chan_ptr
  | Fb_alloc_cmap int
  | Register_framebuffer int
  | Unregister_framebuffer
  | Dma_release_channel dma_chan_ptr
  | Dma_free_coherent u32 "u32 option" u32
  | Fb_dealloc_cmap

text \<open>
  What the platform answers: whether the two \<^verbatim>\<open>devm_kzalloc\<close> calls succeed, the
  addresses (virtual, physical) and the initial contents of the coherent buffer, the
  channel lookup, descriptor preparation, and the return values of
  \<^verbatim>\<open>fb_alloc_cmap\<close> and \<^verbatim>\<open>register_framebuffer\<close>. \<open>PAGE_SHIFT\<close> is the
  architecture's page-size exponent.
\<close>

record platform =
  PAGE_SHIFT :: nat
  kzalloc_fbdev_ok :: bool
  kzalloc_template_ok :: bool
  coherent_alloc :: "(u32 \<times> u32) option"
  coherent_contents :: "nat \<Rightarrow> u8"
  slave_channel :: dma_chan_ptr
  prep_interleaved :: "dma_interleaved_template \<Rightarrow> dma_async_tx_descriptor option"
  cmap_ret :: int
  register_ret :: int

text \<open>
  The world outside the device structure: the calls made so far, oldest first, and the
  bytes of the frame buffer, indexed from its start.
\<close>

record world =
  trace :: "event list"
  fb_mem :: "nat \<Rightarrow> u8"

definition emit :: "event \<Rightarrow> world \<Rightarrow> world" where
  "emit e w = w\<lparr>trace := trace w @ [e]\<rparr>"

text \<open>\<^verbatim>\<open>PAGE_ALIGN\<close>: round up to a multiple of the page size.\<close>

definition PAGE_ALIGN :: "platform \<Rightarrow> u32 \<Rightarrow> u32" where
  "PAGE_ALIGN pf x =
     (let page_size = push_bit (PAGE_SHIFT pf) (1 :: u32)
      in (x + (page_size - 1)) AND NOT (page_size - 1))"

text \<open>\<^verbatim>\<open>memset_io\<close> on the frame buffer, from its start.\<close>

definition memset_io :: "u8 \<Rightarrow> u32 \<Rightarrow> (nat \<Rightarrow> u8) \<Rightarrow> (nat \<Rightarrow> u8)" where
  "memset_io c n m = (\<lambda>i. if i < unat n then c else m i)"

subsection \<open>Starting the transfer\<close>

definition zero_vdma_config :: xilinx_vdma_config where
  "zero_vdma_config = \<lparr>park = 0, others_zero = True\<rparr>"

text \<open>
  \<^verbatim>\<open>vdmafb_setupfb\<close>: terminate, configure, fill the template, prepare, and on
  success submit and issue. The result is the return value, the device and the world.
  \<open>hsize\<close> is an \<^verbatim>\<open>int\<close> holding the 32-bit product \<^verbatim>\<open>var->xres * 4\<close>; it is
  stored in the \<^verbatim>\<open>size_t\<close> field \<^verbatim>\<open>sgl[0].size\<close> with the same bit pattern.
\<close>

definition vdmafb_setupfb :: "platform \<Rightarrow> vdmafb_dev \<Rightarrow> world \<Rightarrow> int \<times> vdmafb_dev \<times> world" where
  "vdmafb_setupfb pf fbdev w =
     (let v = var (info fbdev);
          hsize = xres v * 4;
          w1 = emit (Dmaengine_terminate_all (dma fbdev)) w;
          vdma_config = zero_vdma_config\<lparr>park := 1\<rparr>;
          w2 = emit (Xilinx_vdma_channel_set_config (dma fbdev) vdma_config) w1;
          t = (dma_template fbdev)
                \<lparr>dir := DMA_MEM_TO_DEV,
                 src_start := fb_phys fbdev,
                 frame_size := 1,
                 numf := yres v,
                 src_sgl := True,
                 src_inc := True,
                 dst_inc := False,
                 dst_sgl := False,
                 sgl0 := (sgl0 (dma_template fbdev))\<lparr>size_bytes := hsize, icg := 0\<rparr>\<rparr>;
          fbdev1 = fbdev\<lparr>dma_template := t\<rparr>;
          desc = prep_interleaved pf t;
          w3 = emit (Dmaengine_prep_interleaved_dma (dma fbdev) t desc) w2
      in case desc of
           None \<Rightarrow> (- ENOMEM, fbdev1, w3)
         | Some d \<Rightarrow>
             (0, fbdev1,
              emit (Dma_async_issue_pending (dma fbdev)) (emit (Dmaengine_submit d) w3)))"

subsection \<open>Attach and detach\<close>

text \<open>The device structure and the template as \<^verbatim>\<open>devm_kzalloc\<close> returns them: zeroed.\<close>

definition zero_bitfield :: fb_bitfield where
  "zero_bitfield = \<lparr>offset = 0, length_bits = 0\<rparr>"

definition kzalloc_fbdev :: vdmafb_dev where
  "kzalloc_fbdev =
     \<lparr>info =
        \<lparr>var = \<lparr>xres = 0, yres = 0, xres_virtual = 0, yres_virtual = 0, bits_per_pixel = 0,
                red = zero_bitfield, green = zero_bitfield, blue = zero_bitfield,
                transp = zero_bitfield, activate = 0, accel_flags = 0, pixclock = 0,
                vmode = 0\<rparr>,
         fix_info = \<lparr>id_str = [], smem_start = 0, smem_len = 0, type_fb = 0, visual = 0,
                     line_length = 0\<rparr>,
         screen_base = None,
         info_pseudo_palette = NULL_palette,
         cmap_allocated = False\<rparr>,
      fb_phys = 0,
      fb_virt = None,
      dma = NULL_chan,
      dma_template =
        \<lparr>src_start = 0, dst_start = 0, dir = DMA_MEM_TO_MEM, src_inc = False,
         dst_inc = False, src_sgl = False, dst_sgl = False, numf = 0, frame_size = 0,
         sgl0 = \<lparr>size_bytes = 0, icg = 0\<rparr>\<rparr>,
      pseudo_palette = replicate 16 0\<rparr>"

text \<open>\<^verbatim>\<open>IS_ERR_OR_NULL\<close> and \<^verbatim>\<open>PTR_ERR\<close> of \<^verbatim>\<open>linux/err.h\<close>.\<close>

fun IS_ERR_OR_NULL :: "dma_chan_ptr \<Rightarrow> bool" where
  "IS_ERR_OR_NULL NULL_chan = True"
| "IS_ERR_OR_NULL (ERR_chan e) = True"
| "IS_ERR_OR_NULL (Chan c) = False"

text \<open>
  \<^verbatim>\<open>PTR_ERR\<close> is the pointer read as a number: 0 for NULL and the errno for an encoded
  error. The driver calls it on those two only; for a channel it is the address.
\<close>

fun PTR_ERR :: "dma_chan_ptr \<Rightarrow> int" where
  "PTR_ERR NULL_chan = 0"
| "PTR_ERR (ERR_chan e) = e"
| "PTR_ERR (Chan c) = int c"

text \<open>
  The two error labels of \<^verbatim>\<open>vdmafb_probe\<close>: \<^verbatim>\<open>err_channel_free\<close> releases the
  channel and falls through to \<^verbatim>\<open>err_dma_free\<close>, which frees the buffer.
\<close>

definition err_dma_free :: "platform \<Rightarrow> u32 \<Rightarrow> vdmafb_dev \<Rightarrow> world \<Rightarrow> world" where
  "err_dma_free pf fbsize fbdev w =
     emit (Dma_free_coherent (PAGE_ALIGN pf fbsize) (fb_virt fbdev) (fb_phys fbdev)) w"

definition err_channel_free :: "platform \<Rightarrow> u32 \<Rightarrow> vdmafb_dev \<Rightarrow> world \<Rightarrow> world" where
  "err_channel_free pf fbsize fbdev w =
     err_dma_free pf fbsize fbdev (emit (Dma_release_channel (dma fbdev)) w)"

text \<open>
  \<^verbatim>\<open>vdmafb_probe\<close>. The result is the return value, the driver data
  (\<open>None\<close> when the device structure itself could not be allocated) and the world.
  The assignments of \<^verbatim>\<open>info.fbops\<close>, \<^verbatim>\<open>info.device\<close> and \<^verbatim>\<open>info.par\<close> are
  pointers no modelled function reads and are left out. The return value of
  \<^verbatim>\<open>vdmafb_setupfb\<close> is dropped, and the one of \<^verbatim>\<open>fb_alloc_cmap\<close> is overwritten
  by \<^verbatim>\<open>register_framebuffer\<close>, as in the source.
\<close>

definition vdmafb_probe :: "platform \<Rightarrow> world \<Rightarrow> int \<times> vdmafb_dev option \<times> world" where
  "vdmafb_probe pf w =
     (if \<not> kzalloc_fbdev_ok pf then (- ENOMEM, None, w)
      else if \<not> kzalloc_template_ok pf then (- ENOMEM, Some kzalloc_fbdev, w)
      else
        let fbdev1 = vdmafb_init_fix (vdmafb_init_var kzalloc_fbdev);
            fbsize = smem_len (fix_info (info fbdev1));
            w1 = emit (Dma_alloc_coherent (PAGE_ALIGN pf fbsize) (coherent_alloc pf)) w
        in case coherent_alloc pf of
             None \<Rightarrow> (- ENOMEM, Some fbdev1, w1)
           | Some (virt, phys) \<Rightarrow>
               let fbdev2 = fbdev1\<lparr>fb_virt := Some virt, fb_phys := phys\<rparr>;
                   fbdev3 = fbdev2\<lparr>info := (info fbdev2)
                              \<lparr>fix_info := (fix_info (info fbdev2))\<lparr>smem_start := phys\<rparr>,
                               screen_base := Some virt,
                               info_pseudo_palette := Fbdev_palette\<rparr>\<rparr>;
                   w2 = w1\<lparr>fb_mem := coherent_contents pf\<rparr>;
                   w3 = (emit (Memset_io virt 0 fbsize) w2)
                          \<lparr>fb_mem := memset_io 0 fbsize (fb_mem w2)\<rparr>;
                   fbdev4 = fbdev3\<lparr>dma := slave_channel pf\<rparr>;
                   w4 = emit (Dma_request_slave_channel ''axivdma'' (slave_channel pf)) w3
               in if IS_ERR_OR_NULL (dma fbdev4)
                  then (PTR_ERR (dma fbdev4), Some fbdev4, err_dma_free pf fbsize fbdev4 w4)
                  else
                    (case vdmafb_setupfb pf fbdev4 w4 of
                       (setup_ret, fbdev5, w5) \<Rightarrow>
                         let ret_cmap = cmap_ret pf;
                             w6 = emit (Fb_alloc_cmap ret_cmap) w5;
                             fbdev6 = fbdev5\<lparr>info := (info fbdev5)
                                        \<lparr>cmap_allocated := (ret_cmap = 0)\<rparr>\<rparr>;
                             ret = register_ret pf;
                             w7 = emit (Register_framebuffer ret) w6
                         in if ret \<noteq> 0
                            then (ret, Some fbdev6, err_channel_free pf fbsize fbdev6 w7)
                            else (0, Some fbdev6, w7)))"

text \<open>\<^verbatim>\<open>vdmafb_remove\<close>: four calls, none of them conditional.\<close>

definition vdmafb_remove :: "platform \<Rightarrow> vdmafb_dev \<Rightarrow> world \<Rightarrow> int \<times> vdmafb_dev \<times> world" where
  "vdmafb_remove pf fbdev w =
     (let w1 = emit Unregister_framebuffer w;
          w2 = emit (Dma_release_channel (dma fbdev)) w1;
          w3 = emit (Dma_free_coherent (PAGE_ALIGN pf (smem_len (fix_info (info fbdev))))
                       (fb_virt fbdev) (fb_phys fbdev)) w2;
          w4 = emit Fb_dealloc_cmap w3
      in (0, fbdev\<lparr>info := (info fbdev)\<lparr>cmap_allocated := False\<rparr>\<rparr>, w4))"

subsection \<open>The streaming channel\<close>

text \<open>
  Modelled from the spec: the state machine of the streaming channel (section 4.4), read
  on the calls the driver makes; the DMA engine behind these calls is not part of this
  source file. Acquiring a channel binds it. \<open>stop\<close> (terminate) ends every in-flight
  and pending transfer. A submitted descriptor starts streaming when pending work is
  issued on an idle engine, and then "the hardware itself repeats the transfer
  indefinitely without further software signaling until stop is called", so releasing
  the channel unbinds it and leaves the engine as it is.
\<close>

record channel =
  bound :: bool
  submitted :: "dma_async_tx_descriptor option"
  streaming :: "dma_async_tx_descriptor option"

text \<open>One call of the driver, seen by the channel.\<close>

fun channel_step :: "channel \<Rightarrow> event \<Rightarrow> channel" where
  "channel_step c (Dma_request_slave_channel name (Chan n)) = c\<lparr>bound := True\<rparr>"
| "channel_step c (Dmaengine_terminate_all ch) = c\<lparr>submitted := None, streaming := None\<rparr>"
| "channel_step c (Dmaengine_submit d) = c\<lparr>submitted := Some d\<rparr>"
| "channel_step c (Dma_async_issue_pending ch) =
     (case (submitted c, streaming c) of
        (Some d, None) \<Rightarrow> c\<lparr>submitted := None, streaming := Some d\<rparr>
      | _ \<Rightarrow> c)"
| "channel_step c (Dma_release_channel ch) = c\<lparr>bound := False\<rparr>"
| "channel_step c _ = c"

text \<open>The channel after a sequence of calls.\<close>

definition channel_after :: "channel \<Rightarrow> event list \<Rightarrow> channel" where
  "channel_after c es = foldl channel_step c es"

text \<open>The three states the spec names.\<close>

definition Unbound :: "channel \<Rightarrow> bool" where
  "Unbound c = (\<not> bound c)"

definition Bound_Idle :: "channel \<Rightarrow> bool" where
  "Bound_Idle c = (bound c \<and> submitted c = None \<and> streaming c = None)"

definition Bound_Streaming :: "dma_async_tx_descriptor \<Rightarrow> channel \<Rightarrow> bool" where
  "Bound_Streaming d c = (bound c \<and> submitted c = None \<and> streaming c = Some d)"

text \<open>
  Modelled from the spec: \<open>free\<close> "must only be called after the streaming channel has
  been stopped and detached" (section 4.2). The check walks the calls and, at every
  \<^verbatim>\<open>dma_free_coherent\<close>, asks for a channel that is neither bound nor streaming.
\<close>

fun buffer_free_safe :: "channel \<Rightarrow> event list \<Rightarrow> bool" where
  "buffer_free_safe c [] = True"
| "buffer_free_safe c (Dma_free_coherent sz virt phys # es) =
     (\<not> bound c \<and> streaming c = None \<and> buffer_free_safe c es)"
| "buffer_free_safe c (e # es) = buffer_free_safe (channel_step c e) es"

subsection \<open>Example inputs\<close>

text \<open>
  A platform with 4 KiB pages on which every call succeeds, variants of it, an empty
  world, and the device as it stands before \<^verbatim>\<open>vdmafb_setupfb\<close> runs.
\<close>

definition example_platform :: platform where
  "example_platform =
     \<lparr>PAGE_SHIFT = 12, kzalloc_fbdev_ok = True, kzalloc_template_ok = True,
      coherent_alloc = Some (0xC0000000, 0x10000000), coherent_contents = (\<lambda>i. 0xAA),
      slave_channel = Chan 0, prep_interleaved = (\<lambda>t. Some (Desc 0)),
      cmap_ret = 0, register_ret = 0\<rparr>"

definition example_world :: world where
  "example_world = \<lparr>trace = [], fb_mem = (\<lambda>i. 0)\<rparr>"

definition example_fbdev :: vdmafb_dev where
  "example_fbdev =
     (let d = vdmafb_init_fix (vdmafb_init_var kzalloc_fbdev)
      in d\<lparr>info := (info d)\<lparr>info_pseudo_palette := Fbdev_palette\<rparr>,
           fb_phys := 0x10000000, fb_virt := Some 0xC0000000, dma := Chan 0\<rparr>)"

definition prep_failure_platform :: platform where
  "prep_failure_platform = example_platform\<lparr>prep_interleaved := (\<lambda>t. None)\<rparr>"

definition null_channel_platform :: platform where
  "null_channel_platform = example_platform\<lparr>slave_channel := NULL_chan\<rparr>"

definition unbound_channel :: channel where
  "unbound_channel = \<lparr>bound = False, submitted = None, streaming = None\<rparr>"

definition second_platform :: platform where
  "second_platform = example_platform\<lparr>prep_interleaved := (\<lambda>t. Some (Desc 1))\<rparr>"

definition bound_world :: world where
  "bound_world = \<lparr>trace = [Dma_request_slave_channel ''axivdma'' (Chan 0)], fb_mem = (\<lambda>i. 0)\<rparr>"

definition example_template :: dma_interleaved_template where
  "example_template =
     \<lparr>src_start = 0x10000000, dst_start = 0, dir = DMA_MEM_TO_DEV, src_inc = True,
      dst_inc = False, src_sgl = True, dst_sgl = False, numf = 480, frame_size = 1,
      sgl0 = \<lparr>size_bytes = 3200, icg = 0\<rparr>\<rparr>"

text \<open>The example device with a width of \<open>2 ^ 30\<close> pixels.\<close>

definition wide_fbdev :: vdmafb_dev where
  "wide_fbdev =
     example_fbdev\<lparr>info := (info example_fbdev)
       \<lparr>var := (var (info example_fbdev))\<lparr>xres := 0x40000000\<rparr>\<rparr>\<rparr>"

section \<open>Properties\<close>

subsection \<open>Geometry and the transfer template\<close>

lemmas geometry_defs =
  vdmafb_init_var_def vdmafb_init_fix_def kzalloc_fbdev_def zero_bitfield_def Let_def
  FB_ACCEL_NONE_def FB_ACTIVATE_NOW_def FB_VMODE_NONINTERLACED_def
  FB_TYPE_PACKED_PIXELS_def FB_VISUAL_TRUECOLOR_def KHZ2PICOS_def

lemma fbsize_fixed: "smem_len (fix_info (info (vdmafb_init_fix (vdmafb_init_var d)))) = 1536000"
  by (simp add: vdmafb_init_fix_def vdmafb_init_var_def Let_def)

lemma setupfb_template_fields:
  "dma_template (fst (snd (vdmafb_setupfb pf fbdev w))) =
     (dma_template fbdev)
       \<lparr>dir := DMA_MEM_TO_DEV, src_start := fb_phys fbdev, frame_size := 1,
        numf := yres (var (info fbdev)), src_sgl := True, src_inc := True,
        dst_inc := False, dst_sgl := False,
        sgl0 := (sgl0 (dma_template fbdev))
                  \<lparr>size_bytes := xres (var (info fbdev)) * 4, icg := 0\<rparr>\<rparr>"
  by (simp add: vdmafb_setupfb_def Let_def split: option.splits)

lemma example_page_align: "PAGE_ALIGN example_platform 1536000 = 1536000"
  by (simp add: PAGE_ALIGN_def example_platform_def)

text \<open>
  The product \<^verbatim>\<open>var->xres * 4\<close> is computed on 32 bits. It is the product of the
  numbers for every width below \<open>2 ^ 30\<close>; below \<open>2 ^ 29\<close> it is also the value of
  the \<^verbatim>\<open>int\<close> that holds it.
\<close>

lemma mul4_unat:
  "unat (x :: u32) < 2 ^ 30 \<Longrightarrow> unat (x * 4) = unat x * 4"
  by (simp add: unat_word_ariths)

lemma mul4_sint:
  assumes "unat (x :: u32) < 2 ^ 29"
  shows "sint (x * 4) = int (unat x) * 4"
proof -
  have p: "(2 :: int) ^ 32 = 4294967296" "(2 :: int) ^ 31 = 2147483648"
    by simp_all
  have "int (unat x) < int (2 ^ 29)"
    using assms by (simp only: of_nat_less_iff)
  then have ub: "uint x < 536870912"
    by simp
  have lb: "0 \<le> uint x"
    by simp
  have b0: "0 \<le> uint x * 4"
    using lb by linarith
  have b1: "uint x * 4 < 2 ^ 32"
    unfolding p using ub by linarith
  have b2: "uint x * 4 < 2 ^ 31"
    unfolding p using ub by linarith
  have b3: "- (2 ^ 31) \<le> uint x * 4"
    unfolding p using lb by linarith
  have "uint (x * 4) = (uint x * 4) mod 2 ^ 32"
    by (simp add: uint_word_ariths)
  also have "\<dots> = uint x * 4"
    using b0 b1 by (rule mod_pos_pos_trivial)
  finally have v: "uint (x * 4) = uint x * 4" .
  have "signed_take_bit 31 (uint x * 4) = uint x * 4"
    using b3 b2 by (rule signed_take_bit_int_eq_self)
  then have "sint (x * 4) = uint x * 4"
    by (simp add: sint_uint v)
  then show ?thesis
    by simp
qed

text \<open>
  Claim C1, with the bound on the width it needs. For every geometry with a width
  above 0 and below \<open>2 ^ 30\<close>, a height above 0 and 32 bits per pixel, the template
  \<^verbatim>\<open>vdmafb_setupfb\<close> fills in has, as numbers, chunk size \<open>width * 4\<close> and frame
  count \<open>height\<close>; the chunk size is the stride \<^verbatim>\<open>vdmafb_init_fix\<close> computes for
  that geometry; the inter-chunk gap is 0, the frame size 1, the direction memory to
  device, the source the buffer's physical address, source increment and source
  scatter-gather are on, destination increment and destination scatter-gather are off;
  and this is the template handed to the engine. For a width below \<open>2 ^ 29\<close> the chunk
  size read as a signed \<^verbatim>\<open>int\<close>, which is what \<open>hsize\<close> holds, is \<open>width * 4\<close> too,
  so the value stored does not depend on how wide \<^verbatim>\<open>size_t\<close> is.
\<close>

theorem setupfb_template:
  assumes "0 < xres (var (info fbdev))"
    and "0 < yres (var (info fbdev))"
    and "bits_per_pixel (var (info fbdev)) = 32"
    and "unat (xres (var (info fbdev))) < 2 ^ 30"
  shows "(let t = dma_template (fst (snd (vdmafb_setupfb pf fbdev w))) in
           unat (size_bytes (sgl0 t)) = unat (xres (var (info fbdev))) * 4 \<and>
           unat (numf t) = unat (yres (var (info fbdev))) \<and>
           size_bytes (sgl0 t) = line_length (fix_info (info (vdmafb_init_fix fbdev))) \<and>
           icg (sgl0 t) = 0 \<and>
           frame_size t = 1 \<and>
           dir t = DMA_MEM_TO_DEV \<and>
           src_start t = fb_phys fbdev \<and>
           src_inc t \<and> src_sgl t \<and> \<not> dst_inc t \<and> \<not> dst_sgl t \<and>
           Dmaengine_prep_interleaved_dma (dma fbdev) t (prep_interleaved pf t)
             \<in> set (trace (snd (snd (vdmafb_setupfb pf fbdev w)))) \<and>
           (unat (xres (var (info fbdev))) < 2 ^ 29 \<longrightarrow>
              sint (size_bytes (sgl0 t)) = int (unat (xres (var (info fbdev)))) * 4))"
proof -
  have "line_length (fix_info (info (vdmafb_init_fix fbdev))) = xres (var (info fbdev)) * 4"
    using assms(3) by (simp add: vdmafb_init_fix_def Let_def)
  moreover have "Dmaengine_prep_interleaved_dma (dma fbdev)
      (dma_template (fst (snd (vdmafb_setupfb pf fbdev w))))
      (prep_interleaved pf (dma_template (fst (snd (vdmafb_setupfb pf fbdev w)))))
     \<in> set (trace (snd (snd (vdmafb_setupfb pf fbdev w))))"
    by (simp add: vdmafb_setupfb_def Let_def emit_def split: option.splits)
  moreover note mul4_unat [OF assms(4)]
  ultimately show ?thesis
    by (simp add: Let_def setupfb_template_fields mul4_sint)
qed

theorem setupfb_template_witness:
  "(0 :: u32) < xres (var (info example_fbdev)) \<and>
   0 < yres (var (info example_fbdev)) \<and>
   bits_per_pixel (var (info example_fbdev)) = 32 \<and>
   unat (xres (var (info example_fbdev))) < 2 ^ 30 \<and>
   unat (xres (var (info example_fbdev))) = 800 \<and>
   unat (size_bytes (sgl0 (dma_template (fst (snd
     (vdmafb_setupfb example_platform example_fbdev example_world)))))) = 3200 \<and>
   unat (numf (dma_template (fst (snd
     (vdmafb_setupfb example_platform example_fbdev example_world))))) = 480"
proof -
  have h: "0 < xres (var (info example_fbdev))" "0 < yres (var (info example_fbdev))"
    "bits_per_pixel (var (info example_fbdev)) = 32"
    "unat (xres (var (info example_fbdev))) < 2 ^ 30"
    by (simp_all add: example_fbdev_def geometry_defs)
  have v: "unat (xres (var (info example_fbdev))) = 800"
    "unat (yres (var (info example_fbdev))) = 480"
    by (simp_all add: example_fbdev_def geometry_defs)
  note r = setupfb_template [OF h, of example_platform example_world, unfolded Let_def]
  from r have "unat (size_bytes (sgl0 (dma_template (fst (snd
      (vdmafb_setupfb example_platform example_fbdev example_world)))))) =
      unat (xres (var (info example_fbdev))) * 4"
    and "unat (numf (dma_template (fst (snd
      (vdmafb_setupfb example_platform example_fbdev example_world))))) =
      unat (yres (var (info example_fbdev)))"
    by blast+
  with h v show ?thesis
    by simp
qed

text \<open>
  Without the bound the claim fails: at a width of \<open>2 ^ 30\<close>, with height 480 and 32
  bits per pixel, \<open>width * 4\<close> is 4294967296 and the chunk size written is 0.
\<close>

theorem setupfb_template_counterexample:
  "0 < xres (var (info wide_fbdev)) \<and>
   0 < yres (var (info wide_fbdev)) \<and>
   bits_per_pixel (var (info wide_fbdev)) = 32 \<and>
   unat (xres (var (info wide_fbdev))) * 4 = 4294967296 \<and>
   unat (size_bytes (sgl0 (dma_template (fst (snd
     (vdmafb_setupfb example_platform wide_fbdev example_world)))))) = 0 \<and>
   unat (size_bytes (sgl0 (dma_template (fst (snd
     (vdmafb_setupfb example_platform wide_fbdev example_world))))))
     \<noteq> unat (xres (var (info wide_fbdev))) * 4"
  by (simp add: setupfb_template_fields wide_fbdev_def example_fbdev_def geometry_defs)

text \<open>
  Claim C7. With the fixed geometry of \<^verbatim>\<open>vdmafb_init_var\<close>, 800 x 480 at 32 bits per
  pixel, \<^verbatim>\<open>vdmafb_init_fix\<close> computes a frame buffer size of 800 * 4 * 480 = 1536000
  bytes (the value before \<^verbatim>\<open>PAGE_ALIGN\<close>), and the template built for it has frame
  count 480, chunk size 3200 and inter-chunk gap 0.
\<close>

theorem fixed_geometry_sizes:
  "smem_len (fix_info (info (vdmafb_init_fix (vdmafb_init_var fbdev)))) = 1536000 \<and>
   unat (smem_len (fix_info (info (vdmafb_init_fix (vdmafb_init_var fbdev))))) = 800 * 4 * 480 \<and>
   line_length (fix_info (info (vdmafb_init_fix (vdmafb_init_var fbdev)))) = 3200 \<and>
   (let t = dma_template (fst (snd
              (vdmafb_setupfb pf (vdmafb_init_fix (vdmafb_init_var fbdev)) w)))
    in numf t = 480 \<and> size_bytes (sgl0 t) = 3200 \<and> icg (sgl0 t) = 0)"
  by (simp add: setupfb_template_fields Let_def vdmafb_init_fix_def vdmafb_init_var_def)

subsection \<open>Starting the transfer\<close>

lemma setupfb_result:
  "vdmafb_setupfb pf fbdev w = (ret, fbdev1, w1) \<Longrightarrow>
     fbdev1 = fbdev\<lparr>dma_template := dma_template fbdev1\<rparr> \<and>
     fb_mem w1 = fb_mem w \<and>
     (case prep_interleaved pf (dma_template fbdev1) of
        None \<Rightarrow> ret = - ENOMEM \<and>
          trace w1 = trace w @
            [Dmaengine_terminate_all (dma fbdev),
             Xilinx_vdma_channel_set_config (dma fbdev) (zero_vdma_config\<lparr>park := 1\<rparr>),
             Dmaengine_prep_interleaved_dma (dma fbdev) (dma_template fbdev1) None]
      | Some d \<Rightarrow> ret = 0 \<and>
          trace w1 = trace w @
            [Dmaengine_terminate_all (dma fbdev),
             Xilinx_vdma_channel_set_config (dma fbdev) (zero_vdma_config\<lparr>park := 1\<rparr>),
             Dmaengine_prep_interleaved_dma (dma fbdev) (dma_template fbdev1) (Some d),
             Dmaengine_submit d,
             Dma_async_issue_pending (dma fbdev)])"
  by (auto simp: vdmafb_setupfb_def Let_def emit_def split: option.splits)

lemma channel_after_append:
  "channel_after c (es @ fs) = channel_after (channel_after c es) fs"
  by (simp add: channel_after_def)

lemma channel_after_failed_setup:
  "bound c \<Longrightarrow>
   Bound_Idle (channel_after c
     [Dmaengine_terminate_all ch, Xilinx_vdma_channel_set_config ch cfg,
      Dmaengine_prep_interleaved_dma ch t None])"
  by (simp add: channel_after_def Bound_Idle_def)

lemma channel_after_setup:
  "bound c \<Longrightarrow>
   Bound_Streaming d (channel_after c
     [Dmaengine_terminate_all ch, Xilinx_vdma_channel_set_config ch cfg,
      Dmaengine_prep_interleaved_dma ch t (Some d), Dmaengine_submit d,
      Dma_async_issue_pending ch])"
  by (simp add: channel_after_def Bound_Streaming_def)

lemma channel_after_terminate:
  "bound c \<Longrightarrow> Bound_Idle (channel_after c [Dmaengine_terminate_all ch])"
  by (simp add: channel_after_def Bound_Idle_def)

lemma Bound_Streaming_bound: "Bound_Streaming d c \<Longrightarrow> bound c"
  by (simp add: Bound_Streaming_def)

lemma Bound_Idle_bound: "Bound_Idle c \<Longrightarrow> bound c"
  by (simp add: Bound_Idle_def)

lemma setupfb_channel:
  assumes b: "bound (channel_after c0 (trace w))"
    and s: "vdmafb_setupfb pf fbdev w = (ret, fbdev1, w1)"
  shows "case prep_interleaved pf (dma_template fbdev1) of
           None \<Rightarrow> Bound_Idle (channel_after c0 (trace w1))
         | Some d \<Rightarrow> Bound_Streaming d (channel_after c0 (trace w1))"
proof (cases "prep_interleaved pf (dma_template fbdev1)")
  case None
  with setupfb_result [OF s]
  have "trace w1 = trace w @
      [Dmaengine_terminate_all (dma fbdev),
       Xilinx_vdma_channel_set_config (dma fbdev) (zero_vdma_config\<lparr>park := 1\<rparr>),
       Dmaengine_prep_interleaved_dma (dma fbdev) (dma_template fbdev1) None]"
    by simp
  then have "Bound_Idle (channel_after c0 (trace w1))"
    by (simp only: channel_after_append channel_after_failed_setup [OF b])
  with None show ?thesis by simp
next
  case (Some d)
  with setupfb_result [OF s]
  have "trace w1 = trace w @
      [Dmaengine_terminate_all (dma fbdev),
       Xilinx_vdma_channel_set_config (dma fbdev) (zero_vdma_config\<lparr>park := 1\<rparr>),
       Dmaengine_prep_interleaved_dma (dma fbdev) (dma_template fbdev1) (Some d),
       Dmaengine_submit d,
       Dma_async_issue_pending (dma fbdev)]"
    by simp
  then have "Bound_Streaming d (channel_after c0 (trace w1))"
    by (simp only: channel_after_append channel_after_setup [OF b])
  with Some show ?thesis by simp
qed

text \<open>
  Claim C3. \<^verbatim>\<open>vdmafb_setupfb\<close> first terminates whatever runs on the channel, then
  applies the configuration with \<open>park = 1\<close>, then prepares the descriptor. If the
  preparation fails it returns \<open>-ENOMEM\<close> and has made these three calls only: nothing
  is submitted or issued, and the channel is Bound-Idle. If it succeeds it returns 0
  after submitting the descriptor and issuing pending work, and the channel is
  Bound-Streaming with that descriptor. A second call right after the first, without a
  stop in between, starts with its own terminate, after which the channel is
  Bound-Idle, and ends the same way: Bound-Streaming with the second descriptor only,
  or Bound-Idle when the second preparation fails.
\<close>

theorem setupfb_sequence:
  assumes b: "bound (channel_after c0 (trace w))"
    and s1: "vdmafb_setupfb pf fbdev w = (ret, fbdev1, w1)"
    and s2: "vdmafb_setupfb pf2 fbdev1 w1 = (ret2, fbdev2, w2)"
  shows "(case prep_interleaved pf (dma_template fbdev1) of
            None \<Rightarrow>
              ret = - ENOMEM \<and>
              trace w1 = trace w @
                [Dmaengine_terminate_all (dma fbdev),
                 Xilinx_vdma_channel_set_config (dma fbdev) (zero_vdma_config\<lparr>park := 1\<rparr>),
                 Dmaengine_prep_interleaved_dma (dma fbdev) (dma_template fbdev1) None] \<and>
              Bound_Idle (channel_after c0 (trace w1))
          | Some d \<Rightarrow>
              ret = 0 \<and>
              trace w1 = trace w @
                [Dmaengine_terminate_all (dma fbdev),
                 Xilinx_vdma_channel_set_config (dma fbdev) (zero_vdma_config\<lparr>park := 1\<rparr>),
                 Dmaengine_prep_interleaved_dma (dma fbdev) (dma_template fbdev1) (Some d),
                 Dmaengine_submit d,
                 Dma_async_issue_pending (dma fbdev)] \<and>
              Bound_Streaming d (channel_after c0 (trace w1))) \<and>
         Bound_Idle (channel_after c0 (trace w1 @ [Dmaengine_terminate_all (dma fbdev1)])) \<and>
         (case prep_interleaved pf2 (dma_template fbdev2) of
            None \<Rightarrow>
              ret2 = - ENOMEM \<and>
              trace w2 = trace w1 @
                [Dmaengine_terminate_all (dma fbdev1),
                 Xilinx_vdma_channel_set_config (dma fbdev1) (zero_vdma_config\<lparr>park := 1\<rparr>),
                 Dmaengine_prep_interleaved_dma (dma fbdev1) (dma_template fbdev2) None] \<and>
              Bound_Idle (channel_after c0 (trace w2))
          | Some d2 \<Rightarrow>
              ret2 = 0 \<and>
              trace w2 = trace w1 @
                [Dmaengine_terminate_all (dma fbdev1),
                 Xilinx_vdma_channel_set_config (dma fbdev1) (zero_vdma_config\<lparr>park := 1\<rparr>),
                 Dmaengine_prep_interleaved_dma (dma fbdev1) (dma_template fbdev2) (Some d2),
                 Dmaengine_submit d2,
                 Dma_async_issue_pending (dma fbdev1)] \<and>
              Bound_Streaming d2 (channel_after c0 (trace w2)))"
proof -
  note r1 = setupfb_result [OF s1]
  note r2 = setupfb_result [OF s2]
  note c1 = setupfb_channel [OF b s1]
  have b1: "bound (channel_after c0 (trace w1))"
    using c1 by (auto split: option.splits dest: Bound_Idle_bound Bound_Streaming_bound)
  note c2 = setupfb_channel [OF b1 s2]
  have t: "Bound_Idle (channel_after c0 (trace w1 @ [Dmaengine_terminate_all (dma fbdev1)]))"
    unfolding channel_after_append by (rule channel_after_terminate [OF b1])
  from r1 c1 have first: "case prep_interleaved pf (dma_template fbdev1) of
            None \<Rightarrow>
              ret = - ENOMEM \<and>
              trace w1 = trace w @
                [Dmaengine_terminate_all (dma fbdev),
                 Xilinx_vdma_channel_set_config (dma fbdev) (zero_vdma_config\<lparr>park := 1\<rparr>),
                 Dmaengine_prep_interleaved_dma (dma fbdev) (dma_template fbdev1) None] \<and>
              Bound_Idle (channel_after c0 (trace w1))
          | Some d \<Rightarrow>
              ret = 0 \<and>
              trace w1 = trace w @
                [Dmaengine_terminate_all (dma fbdev),
                 Xilinx_vdma_channel_set_config (dma fbdev) (zero_vdma_config\<lparr>park := 1\<rparr>),
                 Dmaengine_prep_interleaved_dma (dma fbdev) (dma_template fbdev1) (Some d),
                 Dmaengine_submit d,
                 Dma_async_issue_pending (dma fbdev)] \<and>
              Bound_Streaming d (channel_after c0 (trace w1))"
    by (cases "prep_interleaved pf (dma_template fbdev1)") simp_all
  from r2 c2 have second: "case prep_interleaved pf2 (dma_template fbdev2) of
            None \<Rightarrow>
              ret2 = - ENOMEM \<and>
              trace w2 = trace w1 @
                [Dmaengine_terminate_all (dma fbdev1),
                 Xilinx_vdma_channel_set_config (dma fbdev1) (zero_vdma_config\<lparr>park := 1\<rparr>),
                 Dmaengine_prep_interleaved_dma (dma fbdev1) (dma_template fbdev2) None] \<and>
              Bound_Idle (channel_after c0 (trace w2))
          | Some d2 \<Rightarrow>
              ret2 = 0 \<and>
              trace w2 = trace w1 @
                [Dmaengine_terminate_all (dma fbdev1),
                 Xilinx_vdma_channel_set_config (dma fbdev1) (zero_vdma_config\<lparr>park := 1\<rparr>),
                 Dmaengine_prep_interleaved_dma (dma fbdev1) (dma_template fbdev2) (Some d2),
                 Dmaengine_submit d2,
                 Dma_async_issue_pending (dma fbdev1)] \<and>
              Bound_Streaming d2 (channel_after c0 (trace w2))"
    by (cases "prep_interleaved pf2 (dma_template fbdev2)") simp_all
  from first t second show ?thesis by blast
qed

theorem setupfb_sequence_witness:
  "bound (channel_after unbound_channel (trace bound_world)) \<and>
   fst (vdmafb_setupfb example_platform example_fbdev bound_world) = 0 \<and>
   Bound_Streaming (Desc 0) (channel_after unbound_channel
     (trace (snd (snd (vdmafb_setupfb example_platform example_fbdev bound_world))))) \<and>
   Bound_Streaming (Desc 1) (channel_after unbound_channel
     (trace (snd (snd (vdmafb_setupfb second_platform
        (fst (snd (vdmafb_setupfb example_platform example_fbdev bound_world)))
        (snd (snd (vdmafb_setupfb example_platform example_fbdev bound_world)))))))) \<and>
   fst (vdmafb_setupfb prep_failure_platform example_fbdev bound_world) = - ENOMEM \<and>
   Bound_Idle (channel_after unbound_channel
     (trace (snd (snd (vdmafb_setupfb prep_failure_platform example_fbdev bound_world))))) \<and>
   Bound_Streaming (Desc 0) (channel_after unbound_channel
     (trace (snd (snd (vdmafb_setupfb example_platform
        (fst (snd (vdmafb_setupfb prep_failure_platform example_fbdev bound_world)))
        (snd (snd (vdmafb_setupfb prep_failure_platform example_fbdev bound_world))))))))"
proof -
  let ?r1 = "vdmafb_setupfb example_platform example_fbdev bound_world"
  let ?r2 = "vdmafb_setupfb second_platform (fst (snd ?r1)) (snd (snd ?r1))"
  let ?f1 = "vdmafb_setupfb prep_failure_platform example_fbdev bound_world"
  let ?f2 = "vdmafb_setupfb example_platform (fst (snd ?f1)) (snd (snd ?f1))"
  have b: "bound (channel_after unbound_channel (trace bound_world))"
    by (simp add: channel_after_def unbound_channel_def bound_world_def)
  have s1: "?r1 = (fst ?r1, fst (snd ?r1), snd (snd ?r1))"
    by simp
  have s2: "?r2 = (fst ?r2, fst (snd ?r2), snd (snd ?r2))"
    by simp
  have t1: "?f1 = (fst ?f1, fst (snd ?f1), snd (snd ?f1))"
    by simp
  have t2: "?f2 = (fst ?f2, fst (snd ?f2), snd (snd ?f2))"
    by simp
  have p1: "prep_interleaved example_platform t = Some (Desc 0)" for t
    by (simp add: example_platform_def)
  have p2: "prep_interleaved second_platform t = Some (Desc 1)" for t
    by (simp add: second_platform_def example_platform_def)
  have p3: "prep_interleaved prep_failure_platform t = None" for t
    by (simp add: prep_failure_platform_def example_platform_def)
  note r = setupfb_sequence [OF b s1 s2, unfolded p1 p2 option.case]
  note f = setupfb_sequence [OF b t1 t2, unfolded p1 p3 option.case]
  from r f b show ?thesis
    by blast
qed

subsection \<open>Colour registers\<close>

lemma or_and_absorb: "((v :: u32) OR m) AND m = m"
  by (simp add: bit_eq_iff bit_and_iff bit_or_iff)

lemma setcolreg_fixed_layout:
  assumes v: "var (info fbdev) = var (info (vdmafb_init_var fbdev))"
    and p: "info_pseudo_palette (info fbdev) = Fbdev_palette"
    and r: "regno < 16"
  shows "vdmafb_setcolreg regno r g b t fbdev =
           Some (0, fbdev\<lparr>pseudo_palette := (pseudo_palette fbdev)
             [unat regno := (push_bit 16 (drop_bit 8 r) OR push_bit 8 (drop_bit 8 g)
                            OR drop_bit 8 b) OR 0xFF000000]\<rparr>)"
proof -
  have f: "red (var (info fbdev)) = \<lparr>offset = 16, length_bits = 8\<rparr>"
    "green (var (info fbdev)) = \<lparr>offset = 8, length_bits = 8\<rparr>"
    "blue (var (info fbdev)) = \<lparr>offset = 0, length_bits = 8\<rparr>"
    "transp (var (info fbdev)) = \<lparr>offset = 24, length_bits = 8\<rparr>"
    by (subst v, simp add: vdmafb_init_var_def Let_def)+
  have n: "\<not> 16 \<le> regno"
    using r by simp
  show ?thesis
    by (simp add: vdmafb_setcolreg_def Let_def f p n shr32_def shl32_def)
qed

lemma setcolreg_Some:
  assumes "vdmafb_setcolreg regno r g b t fbdev = Some (ret, fbdev')" and "regno < 16"
  shows "ret = 0 \<and>
    (\<exists>cr cg cb pr pg pb.
       shr32 r (16 - length_bits (red (var (info fbdev)))) = Some cr \<and>
       shr32 g (16 - length_bits (green (var (info fbdev)))) = Some cg \<and>
       shr32 b (16 - length_bits (blue (var (info fbdev)))) = Some cb \<and>
       shl32 cr (offset (red (var (info fbdev)))) = Some pr \<and>
       shl32 cg (offset (green (var (info fbdev)))) = Some pg \<and>
       shl32 cb (offset (blue (var (info fbdev)))) = Some pb \<and>
       (if 0 < length_bits (transp (var (info fbdev)))
        then \<exists>m mask. shl32 1 (length_bits (transp (var (info fbdev)))) = Some m \<and>
               shl32 (m - 1) (offset (transp (var (info fbdev)))) = Some mask \<and>
               fbdev' = fbdev\<lparr>pseudo_palette :=
                 (pseudo_palette fbdev)[unat regno := (pr OR pg OR pb) OR mask]\<rparr>
        else fbdev' = fbdev\<lparr>pseudo_palette :=
                 (pseudo_palette fbdev)[unat regno := pr OR pg OR pb]\<rparr>))"
  using assms
  by (auto simp: vdmafb_setcolreg_def Let_def
      split: if_splits palette_ptr.splits Option.bind_splits)

text \<open>
  Claim C4. With the layout of \<^verbatim>\<open>vdmafb_init_var\<close> (red at 16, green at 8, blue at 0,
  transparency at 24, all 8 bits long), writing entry 5 with red 0xFFFF, green 0,
  blue 0 and transparency 0xFFFF stores 0xFFFF0000. And for every layout and every
  input: when the transparency field has a non-zero length, a write that succeeds
  stores a value with every bit of the transparency field set, and the result does not
  depend on the transparency intensity passed in.
\<close>

theorem setcolreg_opaque:
  "(\<forall>fbdev. var (info fbdev) = var (info (vdmafb_init_var fbdev)) \<longrightarrow>
      info_pseudo_palette (info fbdev) = Fbdev_palette \<longrightarrow>
      length (pseudo_palette fbdev) = 16 \<longrightarrow>
      (\<exists>fbdev'. vdmafb_setcolreg 5 0xFFFF 0 0 0xFFFF fbdev = Some (0, fbdev') \<and>
         pseudo_palette fbdev' ! 5 = 0xFFFF0000)) \<and>
   (\<forall>regno r g b t t' fbdev ret fbdev'.
      vdmafb_setcolreg regno r g b t fbdev = Some (ret, fbdev') \<longrightarrow>
      regno < 16 \<longrightarrow>
      length (pseudo_palette fbdev) = 16 \<longrightarrow>
      0 < length_bits (transp (var (info fbdev))) \<longrightarrow>
      (let mask = push_bit (unat (offset (transp (var (info fbdev)))))
                    (push_bit (unat (length_bits (transp (var (info fbdev))))) 1 - 1)
       in pseudo_palette fbdev' ! unat regno AND mask = mask) \<and>
      vdmafb_setcolreg regno r g b t' fbdev = Some (ret, fbdev'))"
proof (intro conjI allI impI)
  fix fbdev
  assume "var (info fbdev) = var (info (vdmafb_init_var fbdev))"
    and "info_pseudo_palette (info fbdev) = Fbdev_palette"
    and "length (pseudo_palette fbdev) = 16"
  then show "\<exists>fbdev'. vdmafb_setcolreg 5 0xFFFF 0 0 0xFFFF fbdev = Some (0, fbdev') \<and>
         pseudo_palette fbdev' ! 5 = 0xFFFF0000"
    by (simp add: setcolreg_fixed_layout)
next
  fix regno r g b t t' fbdev ret fbdev'
  assume s: "vdmafb_setcolreg regno r g b t fbdev = Some (ret, fbdev')"
    and r: "regno < 16"
    and l: "length (pseudo_palette fbdev) = 16"
    and tl: "0 < length_bits (transp (var (info fbdev)))"
  have n: "unat regno < 16"
    using r by (simp add: word_less_nat_alt)
  from setcolreg_Some [OF s r] tl l n
  show "let mask = push_bit (unat (offset (transp (var (info fbdev)))))
                    (push_bit (unat (length_bits (transp (var (info fbdev))))) 1 - 1)
       in pseudo_palette fbdev' ! unat regno AND mask = mask"
    by (auto simp: Let_def shl32_def or_and_absorb split: if_splits)
  show "vdmafb_setcolreg regno r g b t' fbdev = Some (ret, fbdev')"
    using s by (simp add: vdmafb_setcolreg_def)
qed

theorem setcolreg_opaque_witness:
  "var (info example_fbdev) = var (info (vdmafb_init_var example_fbdev)) \<and>
   info_pseudo_palette (info example_fbdev) = Fbdev_palette \<and>
   length (pseudo_palette example_fbdev) = 16 \<and>
   (5 :: u32) < 16 \<and>
   0 < length_bits (transp (var (info example_fbdev))) \<and>
   fst (the (vdmafb_setcolreg 5 0xFFFF 0 0 0xFFFF example_fbdev)) = 0 \<and>
   pseudo_palette (snd (the (vdmafb_setcolreg 5 0xFFFF 0 0 0xFFFF example_fbdev))) ! 5
     = 0xFFFF0000 \<and>
   vdmafb_setcolreg 5 0xFFFF 0 0 0 example_fbdev
     = vdmafb_setcolreg 5 0xFFFF 0 0 0xFFFF example_fbdev \<and>
   pseudo_palette (snd (the (vdmafb_setcolreg 5 0xFFFF 0 0 0 example_fbdev))) ! 5
     AND 0xFF000000 = 0xFF000000"
proof -
  have h: "var (info example_fbdev) = var (info (vdmafb_init_var example_fbdev))"
    "info_pseudo_palette (info example_fbdev) = Fbdev_palette"
    "length (pseudo_palette example_fbdev) = 16"
    "(5 :: u32) < 16"
    "0 < length_bits (transp (var (info example_fbdev)))"
    by (simp_all add: example_fbdev_def geometry_defs)
  have m: "push_bit (unat (offset (transp (var (info example_fbdev)))))
             (push_bit (unat (length_bits (transp (var (info example_fbdev))))) 1 - 1)
           = (0xFF000000 :: u32)"
    by (simp add: example_fbdev_def geometry_defs)
  from setcolreg_opaque h obtain d where
    e: "vdmafb_setcolreg 5 0xFFFF 0 0 0xFFFF example_fbdev = Some (0, d)"
    and v: "pseudo_palette d ! 5 = 0xFFFF0000"
    by blast
  from setcolreg_opaque e h
  have "(let mask = push_bit (unat (offset (transp (var (info example_fbdev)))))
             (push_bit (unat (length_bits (transp (var (info example_fbdev))))) 1 - 1)
         in pseudo_palette d ! unat (5 :: u32) AND mask = mask) \<and>
        vdmafb_setcolreg 5 0xFFFF 0 0 0 example_fbdev = Some (0, d)"
    by blast
  then have "pseudo_palette d ! unat (5 :: u32) AND 0xFF000000 = 0xFF000000 \<and>
        vdmafb_setcolreg 5 0xFFFF 0 0 0 example_fbdev = Some (0, d)"
    by (simp only: Let_def m)
  then have "pseudo_palette d ! 5 AND 0xFF000000 = 0xFF000000"
    and "vdmafb_setcolreg 5 0xFFFF 0 0 0 example_fbdev = Some (0, d)"
    by simp_all
  with e v h show ?thesis by simp
qed

text \<open>
  Claim C5. For every index of 16 or more, \<^verbatim>\<open>vdmafb_setcolreg\<close> returns \<open>-EINVAL\<close>
  and leaves the device, and so the palette, as it was (for every layout whose colour
  fields are at most 16 bits long, as the driver's are; a longer field makes the
  shift count of the initialisers undefined). Nothing else is validated: a call that
  returns at all returns \<open>-EINVAL\<close> exactly when the index is 16 or more and 0
  otherwise, and with the driver's layout every call with an index below 16 returns 0,
  whatever the intensities.
\<close>

theorem setcolreg_range:
  "(\<forall>regno r g b t fbdev.
      16 \<le> regno \<longrightarrow>
      length_bits (red (var (info fbdev))) \<le> 16 \<longrightarrow>
      length_bits (green (var (info fbdev))) \<le> 16 \<longrightarrow>
      length_bits (blue (var (info fbdev))) \<le> 16 \<longrightarrow>
      vdmafb_setcolreg regno r g b t fbdev = Some (- EINVAL, fbdev)) \<and>
   (\<forall>regno r g b t fbdev ret fbdev'.
      vdmafb_setcolreg regno r g b t fbdev = Some (ret, fbdev') \<longrightarrow>
      (if 16 \<le> regno then ret = - EINVAL \<and> fbdev' = fbdev else ret = 0)) \<and>
   (\<forall>regno r g b t fbdev.
      regno < 16 \<longrightarrow>
      var (info fbdev) = var (info (vdmafb_init_var fbdev)) \<longrightarrow>
      info_pseudo_palette (info fbdev) = Fbdev_palette \<longrightarrow>
      (\<exists>fbdev'. vdmafb_setcolreg regno r g b t fbdev = Some (0, fbdev')))"
proof (intro conjI allI impI)
  fix regno r g b t :: u32 and fbdev :: vdmafb_dev
  assume r: "16 \<le> regno"
    and l: "length_bits (red (var (info fbdev))) \<le> 16"
      "length_bits (green (var (info fbdev))) \<le> 16"
      "length_bits (blue (var (info fbdev))) \<le> 16"
  have d: "16 - x < 32" if "x \<le> 16" for x :: u32
    using that by unat_arith
  show "vdmafb_setcolreg regno r g b t fbdev = Some (- EINVAL, fbdev)"
    using r l by (simp add: vdmafb_setcolreg_def Let_def shr32_def d)
next
  fix regno r g b t :: u32 and fbdev fbdev' :: vdmafb_dev and ret :: int
  assume s: "vdmafb_setcolreg regno r g b t fbdev = Some (ret, fbdev')"
  show "if 16 \<le> regno then ret = - EINVAL \<and> fbdev' = fbdev else ret = 0"
  proof (cases "16 \<le> regno")
    case True
    with s show ?thesis
      by (auto simp: vdmafb_setcolreg_def Let_def split: Option.bind_splits)
  next
    case False
    then have "regno < 16" by simp
    from setcolreg_Some [OF s this] False show ?thesis by simp
  qed
next
  fix regno r g b t :: u32 and fbdev :: vdmafb_dev
  assume "regno < 16" "var (info fbdev) = var (info (vdmafb_init_var fbdev))"
    "info_pseudo_palette (info fbdev) = Fbdev_palette"
  then show "\<exists>fbdev'. vdmafb_setcolreg regno r g b t fbdev = Some (0, fbdev')"
    by (simp add: setcolreg_fixed_layout)
qed

theorem setcolreg_range_witness:
  "(16 :: u32) \<le> 16 \<and>
   length_bits (red (var (info example_fbdev))) \<le> 16 \<and>
   length_bits (green (var (info example_fbdev))) \<le> 16 \<and>
   length_bits (blue (var (info example_fbdev))) \<le> 16 \<and>
   vdmafb_setcolreg 16 0xFFFF 0 0 0xFFFF example_fbdev = Some (- EINVAL, example_fbdev) \<and>
   (15 :: u32) < 16 \<and>
   var (info example_fbdev) = var (info (vdmafb_init_var example_fbdev)) \<and>
   info_pseudo_palette (info example_fbdev) = Fbdev_palette \<and>
   fst (the (vdmafb_setcolreg 15 0xFFFFFFFF 0xFFFFFFFF 0xFFFFFFFF 0xFFFFFFFF example_fbdev)) = 0"
proof -
  have h: "(16 :: u32) \<le> 16"
    "length_bits (red (var (info example_fbdev))) \<le> 16"
    "length_bits (green (var (info example_fbdev))) \<le> 16"
    "length_bits (blue (var (info example_fbdev))) \<le> 16"
    by (simp_all add: example_fbdev_def geometry_defs)
  have k: "(15 :: u32) < 16"
    "var (info example_fbdev) = var (info (vdmafb_init_var example_fbdev))"
    "info_pseudo_palette (info example_fbdev) = Fbdev_palette"
    by (simp_all add: example_fbdev_def geometry_defs)
  have a: "vdmafb_setcolreg 16 0xFFFF 0 0 0xFFFF example_fbdev = Some (- EINVAL, example_fbdev)"
    by (rule setcolreg_range [THEN conjunct1, rule_format, OF h])
  obtain d where
    "vdmafb_setcolreg 15 0xFFFFFFFF 0xFFFFFFFF 0xFFFFFFFF 0xFFFFFFFF example_fbdev = Some (0, d)"
    using setcolreg_range [THEN conjunct2, THEN conjunct2, rule_format, OF k] by blast
  with a h k show ?thesis by simp
qed

text \<open>
  Claim C10. A write with an index below 16 that succeeds changes palette entry
  \<open>regno\<close> only: every other entry, the length of the palette, the \<open>info\<close> structure
  with the geometry and the buffer addresses in it, the physical and virtual address
  of the buffer, the channel and the descriptor template are as before.
\<close>

theorem setcolreg_frame:
  assumes "vdmafb_setcolreg regno r g b t fbdev = Some (ret, fbdev')"
    and "regno < 16"
  shows "ret = 0 \<and>
         (\<forall>i. i \<noteq> unat regno \<longrightarrow> pseudo_palette fbdev' ! i = pseudo_palette fbdev ! i) \<and>
         length (pseudo_palette fbdev') = length (pseudo_palette fbdev) \<and>
         info fbdev' = info fbdev \<and>
         fb_phys fbdev' = fb_phys fbdev \<and>
         fb_virt fbdev' = fb_virt fbdev \<and>
         dma fbdev' = dma fbdev \<and>
         dma_template fbdev' = dma_template fbdev"
  using setcolreg_Some [OF assms] by (auto split: if_splits)

theorem setcolreg_frame_witness:
  "vdmafb_setcolreg 5 0xFFFF 0 0 0xFFFF example_fbdev =
     Some (0, example_fbdev\<lparr>pseudo_palette := (replicate 16 0)[5 := 0xFFFF0000]\<rparr>) \<and>
   (5 :: u32) < 16 \<and>
   pseudo_palette (example_fbdev\<lparr>pseudo_palette := (replicate 16 0)[5 := 0xFFFF0000]\<rparr>) ! 4
     = pseudo_palette example_fbdev ! 4 \<and>
   pseudo_palette (example_fbdev\<lparr>pseudo_palette := (replicate 16 0)[5 := 0xFFFF0000]\<rparr>) ! 6
     = pseudo_palette example_fbdev ! 6 \<and>
   info (example_fbdev\<lparr>pseudo_palette := (replicate 16 0)[5 := 0xFFFF0000]\<rparr>)
     = info example_fbdev"
proof -
  have e: "vdmafb_setcolreg 5 0xFFFF 0 0 0xFFFF example_fbdev =
     Some (0, example_fbdev\<lparr>pseudo_palette := (replicate 16 0)[5 := 0xFFFF0000]\<rparr>)"
    by (simp add: vdmafb_setcolreg_def example_fbdev_def geometry_defs shr32_def shl32_def)
  have h: "(5 :: u32) < 16" by simp
  have p: "pseudo_palette example_fbdev = replicate 16 0"
    by (simp add: example_fbdev_def geometry_defs)
  from setcolreg_frame [OF e h] e h show ?thesis by (simp add: p)
qed

subsection \<open>Attach\<close>

lemma probe_alloc_ok:
  assumes "kzalloc_fbdev_ok pf" and "kzalloc_template_ok pf"
    and "coherent_alloc pf = Some (virt, phys)"
  shows "vdmafb_probe pf w =
    (let fbdev1 = vdmafb_init_fix (vdmafb_init_var kzalloc_fbdev);
         fbsize = 1536000;
         w1 = emit (Dma_alloc_coherent (PAGE_ALIGN pf fbsize) (Some (virt, phys))) w;
         fbdev2 = fbdev1\<lparr>fb_virt := Some virt, fb_phys := phys\<rparr>;
         fbdev3 = fbdev2\<lparr>info := (info fbdev2)
                    \<lparr>fix_info := (fix_info (info fbdev2))\<lparr>smem_start := phys\<rparr>,
                     screen_base := Some virt,
                     info_pseudo_palette := Fbdev_palette\<rparr>\<rparr>;
         w3 = (emit (Memset_io virt 0 fbsize) w1)
                \<lparr>fb_mem := memset_io 0 fbsize (coherent_contents pf)\<rparr>;
         fbdev4 = fbdev3\<lparr>dma := slave_channel pf\<rparr>;
         w4 = emit (Dma_request_slave_channel ''axivdma'' (slave_channel pf)) w3
     in if IS_ERR_OR_NULL (slave_channel pf)
        then (PTR_ERR (slave_channel pf), Some fbdev4,
              emit (Dma_free_coherent (PAGE_ALIGN pf fbsize) (Some virt) phys) w4)
        else
          (case vdmafb_setupfb pf fbdev4 w4 of
             (setup_ret, fbdev5, w5) \<Rightarrow>
               let fbdev6 = fbdev5\<lparr>info := (info fbdev5)
                              \<lparr>cmap_allocated := (cmap_ret pf = 0)\<rparr>\<rparr>;
                   w7 = emit (Register_framebuffer (register_ret pf))
                          (emit (Fb_alloc_cmap (cmap_ret pf)) w5)
               in if register_ret pf \<noteq> 0
                  then (register_ret pf, Some fbdev6,
                        emit (Dma_free_coherent (PAGE_ALIGN pf fbsize) (Some virt) phys)
                          (emit (Dma_release_channel (slave_channel pf)) w7))
                  else (0, Some fbdev6, w7)))"
  using assms
  apply (simp add: vdmafb_probe_def err_dma_free_def err_channel_free_def fbsize_fixed Let_def
      emit_def split: prod.splits)
  apply (auto simp: vdmafb_setupfb_def Let_def emit_def split: option.splits)
  done

lemma example_setupfb_template:
  "dma_template (fst (snd (vdmafb_setupfb pf example_fbdev w))) = example_template"
  by (simp add: setupfb_template_fields example_fbdev_def example_template_def geometry_defs)

lemma example_probe:
  "vdmafb_probe example_platform example_world =
     (0,
      Some (example_fbdev
        \<lparr>info := (info example_fbdev)
           \<lparr>fix_info := (fix_info (info example_fbdev))\<lparr>smem_start := 0x10000000\<rparr>,
            screen_base := Some 0xC0000000, cmap_allocated := True\<rparr>,
         dma_template := example_template\<rparr>),
      \<lparr>trace =
         [Dma_alloc_coherent 1536000 (Some (0xC0000000, 0x10000000)),
          Memset_io 0xC0000000 0 1536000,
          Dma_request_slave_channel ''axivdma'' (Chan 0),
          Dmaengine_terminate_all (Chan 0),
          Xilinx_vdma_channel_set_config (Chan 0) (zero_vdma_config\<lparr>park := 1\<rparr>),
          Dmaengine_prep_interleaved_dma (Chan 0) example_template (Some (Desc 0)),
          Dmaengine_submit (Desc 0),
          Dma_async_issue_pending (Chan 0),
          Fb_alloc_cmap 0,
          Register_framebuffer 0],
       fb_mem = memset_io 0 1536000 (\<lambda>i. 0xAA)\<rparr>)"
  by (simp add: vdmafb_probe_def err_dma_free_def err_channel_free_def vdmafb_setupfb_def
      Let_def emit_def PAGE_ALIGN_def
      example_platform_def example_world_def example_fbdev_def example_template_def
      geometry_defs)

text \<open>
  Claim C6. Once the buffer is allocated, \<^verbatim>\<open>vdmafb_probe\<close> zero-fills it at once:
  the call after \<^verbatim>\<open>dma_alloc_coherent\<close> is the \<^verbatim>\<open>memset_io\<close> of 1536000 bytes, stride
  times height, so every submission to the engine and the registration of the frame
  buffer come later; and the first 1536000 bytes of the buffer are zero, whatever the
  allocator returned.
\<close>

theorem probe_zeroes_buffer:
  assumes "kzalloc_fbdev_ok pf" and "kzalloc_template_ok pf"
    and "coherent_alloc pf = Some (virt, phys)"
    and "vdmafb_probe pf w = (ret, drvdata, w')"
  shows "(\<exists>rest. trace w' = trace w @
            [Dma_alloc_coherent (PAGE_ALIGN pf 1536000) (Some (virt, phys)),
             Memset_io virt 0 1536000] @ rest) \<and>
         (\<forall>i < 1536000. fb_mem w' i = 0) \<and>
         (\<exists>fbdev. drvdata = Some fbdev \<and>
            unat (line_length (fix_info (info fbdev))) * unat (yres (var (info fbdev)))
              = 1536000)"
proof -
  note p = assms(4) [unfolded probe_alloc_ok [OF assms(1-3)]]
  have z: "\<forall>i < 1536000. fb_mem w' i = 0"
    using p
    by (auto simp: Let_def emit_def memset_io_def vdmafb_setupfb_def
        split: if_splits prod.splits option.splits)
  have t: "\<exists>rest. trace w' = trace w @
            [Dma_alloc_coherent (PAGE_ALIGN pf 1536000) (Some (virt, phys)),
             Memset_io virt 0 1536000] @ rest"
    using p
    by (auto simp: Let_def emit_def vdmafb_setupfb_def
        split: if_splits prod.splits option.splits)
  have g: "\<exists>fbdev. drvdata = Some fbdev \<and>
            unat (line_length (fix_info (info fbdev))) * unat (yres (var (info fbdev)))
              = 1536000"
    using p
    by (auto simp: Let_def vdmafb_setupfb_def vdmafb_init_fix_def vdmafb_init_var_def
        split: if_splits prod.splits option.splits)
  from t z g show ?thesis by blast
qed

theorem probe_zeroes_buffer_witness:
  "kzalloc_fbdev_ok example_platform \<and>
   kzalloc_template_ok example_platform \<and>
   coherent_alloc example_platform = Some (0xC0000000, 0x10000000) \<and>
   coherent_contents example_platform 0 = 0xAA \<and>
   fb_mem (snd (snd (vdmafb_probe example_platform example_world))) 0 = 0 \<and>
   fb_mem (snd (snd (vdmafb_probe example_platform example_world))) 1535999 = 0 \<and>
   take 2 (trace (snd (snd (vdmafb_probe example_platform example_world)))) =
     [Dma_alloc_coherent 1536000 (Some (0xC0000000, 0x10000000)),
      Memset_io 0xC0000000 0 1536000]"
proof -
  have h: "kzalloc_fbdev_ok example_platform"
    "kzalloc_template_ok example_platform"
    "coherent_alloc example_platform = Some (0xC0000000, 0x10000000)"
    by (simp_all add: example_platform_def)
  have c: "coherent_contents example_platform 0 = 0xAA"
    by (simp add: example_platform_def)
  have t: "trace example_world = []"
    by (simp add: example_world_def)
  have p: "vdmafb_probe example_platform example_world =
      (fst (vdmafb_probe example_platform example_world),
       fst (snd (vdmafb_probe example_platform example_world)),
       snd (snd (vdmafb_probe example_platform example_world)))"
    by simp
  from probe_zeroes_buffer [OF h p] h c show ?thesis
    by (auto simp: t example_page_align)
qed

text \<open>
  Claim C9. When the channel lookup returns NULL, \<^verbatim>\<open>vdmafb_probe\<close> frees the frame
  buffer and returns 0: \<^verbatim>\<open>PTR_ERR\<close> of NULL is 0. No channel is bound and nothing is
  registered.
\<close>

theorem probe_null_channel:
  assumes "kzalloc_fbdev_ok pf" and "kzalloc_template_ok pf"
    and "coherent_alloc pf = Some (virt, phys)"
    and "slave_channel pf = NULL_chan"
    and "vdmafb_probe pf w = (ret, drvdata, w')"
  shows "ret = 0 \<and>
         trace w' = trace w @
           [Dma_alloc_coherent (PAGE_ALIGN pf 1536000) (Some (virt, phys)),
            Memset_io virt 0 1536000,
            Dma_request_slave_channel ''axivdma'' NULL_chan,
            Dma_free_coherent (PAGE_ALIGN pf 1536000) (Some virt) phys] \<and>
         (\<exists>fbdev. drvdata = Some fbdev \<and> dma fbdev = NULL_chan \<and> fb_virt fbdev = Some virt)"
  using assms(4,5) unfolding probe_alloc_ok [OF assms(1-3)]
  by (auto simp: Let_def emit_def)

theorem probe_null_channel_witness:
  "kzalloc_fbdev_ok null_channel_platform \<and>
   kzalloc_template_ok null_channel_platform \<and>
   coherent_alloc null_channel_platform = Some (0xC0000000, 0x10000000) \<and>
   slave_channel null_channel_platform = NULL_chan \<and>
   fst (vdmafb_probe null_channel_platform example_world) = 0 \<and>
   trace (snd (snd (vdmafb_probe null_channel_platform example_world))) =
     [Dma_alloc_coherent 1536000 (Some (0xC0000000, 0x10000000)),
      Memset_io 0xC0000000 0 1536000,
      Dma_request_slave_channel ''axivdma'' NULL_chan,
      Dma_free_coherent 1536000 (Some 0xC0000000) 0x10000000]"
proof -
  have h: "kzalloc_fbdev_ok null_channel_platform"
    "kzalloc_template_ok null_channel_platform"
    "coherent_alloc null_channel_platform = Some (0xC0000000, 0x10000000)"
    "slave_channel null_channel_platform = NULL_chan"
    by (simp_all add: null_channel_platform_def example_platform_def)
  have a: "PAGE_ALIGN null_channel_platform 1536000 = 1536000"
    by (simp add: PAGE_ALIGN_def null_channel_platform_def example_platform_def)
  have t: "trace example_world = []"
    by (simp add: example_world_def)
  have p: "vdmafb_probe null_channel_platform example_world =
      (fst (vdmafb_probe null_channel_platform example_world),
       fst (snd (vdmafb_probe null_channel_platform example_world)),
       snd (snd (vdmafb_probe null_channel_platform example_world)))"
    by simp
  from probe_null_channel [OF h p] h show ?thesis
    by (simp add: a t)
qed

text \<open>
  The failures \<^verbatim>\<open>vdmafb_probe\<close> does handle: a failed buffer allocation, an encoded
  error from the channel lookup, and a failed registration each return their own error
  after the calls of the matching error label.
\<close>

lemma probe_alloc_failure:
  assumes "kzalloc_fbdev_ok pf" and "kzalloc_template_ok pf"
    and "coherent_alloc pf = None"
    and "vdmafb_probe pf w = (ret, drvdata, w')"
  shows "ret = - ENOMEM \<and>
         trace w' = trace w @ [Dma_alloc_coherent (PAGE_ALIGN pf 1536000) None]"
  using assms
  by (auto simp: vdmafb_probe_def fbsize_fixed Let_def emit_def)

lemma probe_channel_error:
  assumes "kzalloc_fbdev_ok pf" and "kzalloc_template_ok pf"
    and "coherent_alloc pf = Some (virt, phys)"
    and "slave_channel pf = ERR_chan e"
    and "vdmafb_probe pf w = (ret, drvdata, w')"
  shows "ret = e \<and>
         trace w' = trace w @
           [Dma_alloc_coherent (PAGE_ALIGN pf 1536000) (Some (virt, phys)),
            Memset_io virt 0 1536000,
            Dma_request_slave_channel ''axivdma'' (ERR_chan e),
            Dma_free_coherent (PAGE_ALIGN pf 1536000) (Some virt) phys]"
  using assms(4,5) unfolding probe_alloc_ok [OF assms(1-3)]
  by (auto simp: Let_def emit_def)

lemma probe_register_failure:
  assumes "kzalloc_fbdev_ok pf" and "kzalloc_template_ok pf"
    and "coherent_alloc pf = Some (virt, phys)"
    and "slave_channel pf = Chan n"
    and "register_ret pf \<noteq> 0"
    and "vdmafb_probe pf w = (ret, drvdata, w')"
  shows "ret = register_ret pf \<and>
         (\<exists>calls. trace w' = calls @
            [Register_framebuffer (register_ret pf),
             Dma_release_channel (Chan n),
             Dma_free_coherent (PAGE_ALIGN pf 1536000) (Some virt) phys])"
  using assms(4-6) unfolding probe_alloc_ok [OF assms(1-3)]
  by (auto simp: Let_def emit_def split: prod.splits)

text \<open>
  Claim C2. The claim asks that a failing step of the attach sequence is undone and its
  error returned. The code does not do so when \<^verbatim>\<open>vdmafb_setupfb\<close> fails: its return
  value is dropped. On the platform where descriptor preparation fails and everything
  else succeeds, \<^verbatim>\<open>vdmafb_setupfb\<close> returns \<open>-ENOMEM\<close>, yet \<^verbatim>\<open>vdmafb_probe\<close> goes on to
  register the frame buffer and returns 0, with the channel and the buffer still held.
\<close>

theorem probe_ignores_setup_failure:
  "vdmafb_probe prep_failure_platform example_world =
     (0,
      Some (example_fbdev
        \<lparr>info := (info example_fbdev)
           \<lparr>fix_info := (fix_info (info example_fbdev))\<lparr>smem_start := 0x10000000\<rparr>,
            screen_base := Some 0xC0000000, cmap_allocated := True\<rparr>,
         dma_template := example_template\<rparr>),
      \<lparr>trace =
         [Dma_alloc_coherent 1536000 (Some (0xC0000000, 0x10000000)),
          Memset_io 0xC0000000 0 1536000,
          Dma_request_slave_channel ''axivdma'' (Chan 0),
          Dmaengine_terminate_all (Chan 0),
          Xilinx_vdma_channel_set_config (Chan 0) (zero_vdma_config\<lparr>park := 1\<rparr>),
          Dmaengine_prep_interleaved_dma (Chan 0) example_template None,
          Fb_alloc_cmap 0,
          Register_framebuffer 0],
       fb_mem = memset_io 0 1536000 (\<lambda>i. 0xAA)\<rparr>) \<and>
   fst (vdmafb_setupfb prep_failure_platform example_fbdev bound_world) = - ENOMEM"
  by (simp add: vdmafb_probe_def err_dma_free_def err_channel_free_def vdmafb_setupfb_def
      Let_def emit_def PAGE_ALIGN_def
      prep_failure_platform_def
      example_platform_def example_world_def example_fbdev_def example_template_def
      geometry_defs)

subsection \<open>Detach\<close>

lemma remove_trace:
  "vdmafb_remove pf fbdev w = (ret, fbdev', w') \<Longrightarrow>
   ret = 0 \<and>
   trace w' = trace w @
     [Unregister_framebuffer,
      Dma_release_channel (dma fbdev),
      Dma_free_coherent (PAGE_ALIGN pf (smem_len (fix_info (info fbdev))))
        (fb_virt fbdev) (fb_phys fbdev),
      Fb_dealloc_cmap]"
  by (auto simp: vdmafb_remove_def Let_def emit_def)

text \<open>
  Claim C8. The claim asks that the buffer is freed only after the channel has been
  stopped and detached. \<^verbatim>\<open>vdmafb_remove\<close> unregisters, releases the channel and frees
  the buffer in this order, but never stops the channel: the only
  \<^verbatim>\<open>dmaengine_terminate_all\<close> of the driver is the one in \<^verbatim>\<open>vdmafb_setupfb\<close>. After
  an attach that succeeded the channel is Bound-Streaming; the calls of the detach are
  the four below, none of them a terminate, so when \<^verbatim>\<open>dma_free_coherent\<close> is called
  the channel is detached and the engine is still streaming the descriptor.
\<close>

theorem remove_frees_streaming_buffer:
  "(case vdmafb_probe example_platform example_world of
      (ret, drvdata, w1) \<Rightarrow>
        ret = 0 \<and>
        trace w1 =
          [Dma_alloc_coherent 1536000 (Some (0xC0000000, 0x10000000)),
           Memset_io 0xC0000000 0 1536000,
           Dma_request_slave_channel ''axivdma'' (Chan 0),
           Dmaengine_terminate_all (Chan 0),
           Xilinx_vdma_channel_set_config (Chan 0) (zero_vdma_config\<lparr>park := 1\<rparr>),
           Dmaengine_prep_interleaved_dma (Chan 0) example_template (Some (Desc 0)),
           Dmaengine_submit (Desc 0),
           Dma_async_issue_pending (Chan 0),
           Fb_alloc_cmap 0,
           Register_framebuffer 0] \<and>
        Bound_Streaming (Desc 0) (channel_after unbound_channel (trace w1)) \<and>
        (case vdmafb_remove example_platform (the drvdata) w1 of
           (ret', fbdev', w2) \<Rightarrow>
             trace w2 = trace w1 @
               [Unregister_framebuffer,
                Dma_release_channel (Chan 0),
                Dma_free_coherent 1536000 (Some 0xC0000000) 0x10000000,
                Fb_dealloc_cmap] \<and>
             Unbound (channel_after unbound_channel
               (trace w1 @ [Unregister_framebuffer, Dma_release_channel (Chan 0)])) \<and>
             streaming (channel_after unbound_channel
               (trace w1 @ [Unregister_framebuffer, Dma_release_channel (Chan 0)]))
               = Some (Desc 0) \<and>
             \<not> buffer_free_safe unbound_channel (trace w2)))"
  by (simp add: example_probe vdmafb_remove_def Let_def emit_def example_page_align
      channel_after_def Bound_Streaming_def Unbound_def unbound_channel_def
      example_fbdev_def geometry_defs)

end
